theory Spec2Isabelle
  imports Main
begin

section \<open>Python strings and paths\<close>

text \<open>
  Python \<open>str\<close> values are modelled as \<open>string\<close> (a list of characters). The code
  only concatenates, compares and splits strings, so nothing depends on how a character
  is encoded.
\<close>

text \<open>\<open>s.startswith(p)\<close>\<close>

definition startswith :: "string \<Rightarrow> string \<Rightarrow> bool" where
  "startswith s p = (take (length p) s = p)"

text \<open>\<open>s.endswith(p)\<close>\<close>

definition endswith :: "string \<Rightarrow> string \<Rightarrow> bool" where
  "endswith s p = (length p \<le> length s \<and> drop (length s - length p) s = p)"

text \<open>
  \<open>s.split(sep)\<close> for a one-character separator: the pieces between the separators, in
  order. The accumulator holds the piece being read; the result is never empty.
\<close>

fun split_acc :: "char \<Rightarrow> string \<Rightarrow> string \<Rightarrow> string list" where
  "split_acc sep acc [] = [acc]"
| "split_acc sep acc (c # cs) =
     (if c = sep then acc # split_acc sep [] cs else split_acc sep (acc @ [c]) cs)"

definition split :: "string \<Rightarrow> char \<Rightarrow> string list" where
  "split s sep = split_acc sep [] s"

text \<open>\<open>"".join(xs)\<close>\<close>

definition join_empty :: "string list \<Rightarrow> string" where
  "join_empty xs = concat xs"

text \<open>
  \<open>os.path.join(a, b)\<close> of \<open>posixpath\<close>: an absolute second component replaces the
  path; otherwise it is appended, with a separator unless the path is empty or already
  ends with one.
\<close>

definition os_path_join :: "string \<Rightarrow> string \<Rightarrow> string" where
  "os_path_join a b =
     (if startswith b ''/'' then b
      else if a = [] \<or> endswith a ''/'' then a @ b
      else a @ ''/'' @ b)"

text \<open>
  \<open>os.path.dirname(p)\<close> of \<open>posixpath\<close>: everything up to and including the last
  separator, with the trailing separators removed unless nothing else is left.
\<close>

definition rstrip_sep :: "string \<Rightarrow> string" where
  "rstrip_sep s = rev (dropWhile (\<lambda>c. c = CHR ''/'') (rev s))"

definition os_path_dirname :: "string \<Rightarrow> string" where
  "os_path_dirname p =
     (let head = rev (dropWhile (\<lambda>c. c \<noteq> CHR ''/'') (rev p))
      in if head \<noteq> [] \<and> filter (\<lambda>c. c \<noteq> CHR ''/'') head \<noteq> [] then rstrip_sep head
         else head)"

text \<open>\<open>str(n)\<close> for an integer: decimal digits, with a minus sign when negative.\<close>

definition digit_char :: "nat \<Rightarrow> char" where
  "digit_char d = ''0123456789'' ! d"

function str_nat :: "nat \<Rightarrow> string" where
  "str_nat n = (if n < 10 then [digit_char n] else str_nat (n div 10) @ [digit_char (n mod 10)])"
  by pat_completeness auto
termination
  by (relation "measure id") auto

declare str_nat.simps [simp del]

definition str_int :: "int \<Rightarrow> string" where
  "str_int i = (if i < 0 then ''-'' @ str_nat (nat (- i)) else str_nat (nat i))"

section \<open>Rerun title\<close>

text \<open>
  \<open>_rerun_report\<close>, lines 354-355:
  \<^verbatim>\<open>
    prefix = "Rerun of "
    title = result.report_title if result.report_title.startswith(prefix)
            else (prefix + result.report_title)
  \<close>
\<close>

definition prefix :: string where
  "prefix = ''Rerun of ''"

definition title :: "string \<Rightarrow> string" where
  "title report_title =
     (if startswith report_title prefix then report_title else prefix @ report_title)"

text \<open>
  The number of markers a title starts with: how many times \<open>prefix\<close> can be taken off
  its front.
\<close>

function leading_markers :: "string \<Rightarrow> nat" where
  "leading_markers t =
     (if startswith t prefix then Suc (leading_markers (drop (length prefix) t)) else 0)"
  by pat_completeness auto
termination
proof (relation "measure length")
  fix t
  assume "startswith t prefix"
  then have "t \<noteq> []"
    by (auto simp: startswith_def prefix_def)
  then show "(drop (length prefix) t, t) \<in> measure length"
    by (simp add: prefix_def)
qed simp

declare leading_markers.simps [simp del]

section \<open>Errors and outcomes\<close>

text \<open>
  The exceptions the modelled code can raise. \<open>RuntimeError\<close> carries its message,
  \<open>OSError\<close> its \<open>errno\<close>, \<open>HTTPException\<close> the status code of flask's \<open>abort\<close>.
\<close>

datatype errno = EEXIST | ENOENT | ENOTDIR | EISDIR | EACCES | ENOSPC

datatype py_error =
    RuntimeError string
  | UnicodeDecodeError
  | PersistenceError
  | OSError errno
  | HTTPException nat

text \<open>
  What a call does: it returns a value, raises, or never comes back from a blocking call
  (\<open>readline\<close> on a stream that neither delivers nor closes, \<open>wait\<close> on a process that
  never exits).
\<close>

datatype 'a outcome = Returns 'a | Raises py_error | Blocked

section \<open>Job records and the Result Store\<close>

text \<open>
  Modelled from the spec: \<open>notebooker.constants.JobStatus\<close> is not among the sources;
  the spec's data model lists the statuses
  \<open>SUBMITTED, RUNNING, DONE, ERROR, CANCELLED\<close>.
\<close>

datatype JobStatus = SUBMITTED | RUNNING | DONE | ERROR | CANCELLED

text \<open>
  A parameter value of an override. The code formats it with an f-string
  (\<open>f"{x}_{y}"\<close>, that is \<open>str(y)\<close>) and hands the whole mapping to \<open>json.dumps\<close>;
  the scalar values are modelled.
\<close>

datatype pyval = PStr string | PInt int | PBool bool | PNone

fun str :: "pyval \<Rightarrow> string" where
  "str (PStr s) = s"
| "str (PInt i) = str_int i"
| "str (PBool b) = (if b then ''True'' else ''False'')"
| "str PNone = ''None''"

text \<open>A Python \<open>dict\<close> with string keys, in insertion order.\<close>

type_synonym overrides_t = "(string \<times> pyval) list"

text \<open>
  Modelled from the spec: the record classes of \<open>notebooker.serialization\<close> are not
  among the sources. The fields are those of the spec's Job Record (section 3);
  \<open>raw_html_resources\<close> holds the \<open>outputs\<close> mapping of relative path to payload.
\<close>

record job_record =
  job_id :: string
  report_name :: string
  report_title :: string
  overrides :: overrides_t
  status :: JobStatus
  job_start_time :: nat
  mailto :: string
  mailfrom :: "string option"
  generate_pdf_output :: bool
  hide_code :: bool
  scheduler_job_id :: "string option"
  stdout :: "string list"
  raw_html :: string
  raw_html_resources :: "(string \<times> string) list"

type_synonym store = "string \<rightharpoonup> job_record"

text \<open>
  How the Result Store treats one write call. The spec names two ways a write can go
  wrong: the store is unreachable and the call fails with \<open>PersistenceError\<close>
  (sections 4.3 and 7), or the call returns and the write is lost (section 4.2).
\<close>

datatype write_outcome = Stored | Lost | Unreachable

text \<open>
  Modelled from the spec: \<open>save_check_stub\<close> of the serializer is not among the
  sources. Spec 4.3: "create-or-overwrite the initial record; fails with
  PersistenceError if the underlying store is unreachable". The record holds the fields
  the caller passes; the others start empty.
\<close>

definition check_stub ::
  "string \<Rightarrow> string \<Rightarrow> string \<Rightarrow> nat \<Rightarrow> JobStatus \<Rightarrow> overrides_t \<Rightarrow> string \<Rightarrow> bool \<Rightarrow> bool \<Rightarrow>
     string option \<Rightarrow> job_record" where
  "check_stub jid rname rtitle start stat ovr mto pdf hide sched =
     \<lparr>job_id = jid, report_name = rname, report_title = rtitle, overrides = ovr,
      status = stat, job_start_time = start, mailto = mto, mailfrom = None,
      generate_pdf_output = pdf, hide_code = hide, scheduler_job_id = sched,
      stdout = [], raw_html = [], raw_html_resources = []\<rparr>"

definition save_check_stub ::
  "write_outcome \<Rightarrow> store \<Rightarrow> string \<Rightarrow> string \<Rightarrow> string \<Rightarrow> nat \<Rightarrow> JobStatus \<Rightarrow> overrides_t \<Rightarrow>
     string \<Rightarrow> bool \<Rightarrow> bool \<Rightarrow> string option \<Rightarrow> py_error + store" where
  "save_check_stub w st jid rname rtitle start stat ovr mto pdf hide sched =
     (case w of
        Unreachable \<Rightarrow> Inl PersistenceError
      | Lost \<Rightarrow> Inr st
      | Stored \<Rightarrow>
          Inr (st(jid \<mapsto> check_stub jid rname rtitle start stat ovr mto pdf hide sched)))"

text \<open>
  Modelled from the spec: \<open>update_stdout\<close> of the serializer is not among the sources.
  Spec 4.3: "append new_lines to the stored sequence, or, if replace, set the stored
  sequence to exactly new_lines". The spec does not say what an update of an unknown
  job does; here it changes nothing.
\<close>

definition update_stdout ::
  "write_outcome \<Rightarrow> store \<Rightarrow> string \<Rightarrow> string list \<Rightarrow> bool \<Rightarrow> py_error + store" where
  "update_stdout w st jid new_lines replace =
     (case w of
        Unreachable \<Rightarrow> Inl PersistenceError
      | Lost \<Rightarrow> Inr st
      | Stored \<Rightarrow>
          (case st jid of
             None \<Rightarrow> Inr st
           | Some r \<Rightarrow>
               Inr (st(jid \<mapsto> r\<lparr>stdout := (if replace then new_lines else stdout r @ new_lines)\<rparr>))))"

text \<open>
  Modelled from the spec: \<open>get_check_result\<close> of the serializer is not among the
  sources. Spec 4.3: "point lookup; None signals unknown job".
\<close>

definition get_check_result :: "store \<Rightarrow> string \<Rightarrow> job_record option" where
  "get_check_result st jid = st jid"

section \<open>Effects\<close>

text \<open>
  What the modelled code does to its surroundings, in the order it happens: the stub
  write of \<open>run_report\<close>, the spawn of the subprocess with its command line, the start
  of the monitor thread for a job, the wait (\<open>p.wait()\<close>) or the sleep and poll; and for
  the monitor \<open>logger.info(line)\<close> and each call of \<open>update_stdout\<close> with the job,
  the lines and the \<open>replace\<close> flag.
\<close>

text \<open>
  An element of the command line: a string, or the JSON text \<open>json.dumps(overrides)\<close>
  of the overrides, kept as the mapping it encodes.
\<close>

datatype cmd_arg = Arg string | JsonDumps overrides_t

datatype effect =
    SaveCheckStub string JobStatus
  | Popen "cmd_arg list"
  | ThreadStart string
  | Wait
  | Sleep nat
  | Poll
  | LoggerInfo string
  | UpdateStdout string "string list" bool

section \<open>The Output Monitor\<close>

text \<open>
  One pass through the loop of \<open>_monitor_stderr\<close> sees three things of its
  surroundings: what \<open>process.stderr.readline().decode("utf-8")\<close> yields (the text of
  the line, or \<open>None\<close> when the bytes are not valid UTF-8: \<open>decode\<close> is called
  without an \<open>errors\<close> argument, so it is strict and raises), what \<open>process.poll()\<close>
  would return at that moment (\<open>None\<close> while the process runs, its exit code
  afterwards), and how the Result Store treats the write of this pass.
\<close>

record iteration =
  readline :: "string option"
  poll :: "int option"
  store_write :: write_outcome

text \<open>
  \<open>_monitor_stderr\<close>, lines 136-148. The arguments of the loop are the passes still to
  come, the job, the local list \<open>stderr\<close>, the store and the effects so far. When the
  passes run out the monitor is blocked in \<open>readline\<close>. The serializer handle built by
  \<open>get_serializer_from_cls\<close> is the store itself. \<open>poll\<close> is consulted only when the
  line is empty, as \<open>and\<close> evaluates its second operand only then.
\<close>

fun monitor_loop ::
  "iteration list \<Rightarrow> string \<Rightarrow> string list \<Rightarrow> store \<Rightarrow> effect list \<Rightarrow>
     string outcome \<times> store \<times> effect list" where
  "monitor_loop [] jid stderr st eff = (Blocked, st, eff)"
| "monitor_loop (it # its) jid stderr st eff =
     (case readline it of
        None \<Rightarrow> (Raises UnicodeDecodeError, st, eff)
      | Some line \<Rightarrow>
          if line = [] \<and> poll it \<noteq> None then
            (case update_stdout (store_write it) st jid stderr True of
               Inl e \<Rightarrow> (Raises e, st, eff @ [UpdateStdout jid stderr True])
             | Inr st' \<Rightarrow> (Returns (join_empty stderr), st', eff @ [UpdateStdout jid stderr True]))
          else
            (case update_stdout (store_write it) st jid [line] False of
               Inl e \<Rightarrow> (Raises e, st, eff @ [LoggerInfo line, UpdateStdout jid [line] False])
             | Inr st' \<Rightarrow>
                 monitor_loop its jid (stderr @ [line]) st'
                   (eff @ [LoggerInfo line, UpdateStdout jid [line] False])))"

text \<open>\<open>_monitor_stderr\<close> (the leading underscore is not part of an Isabelle name).\<close>

definition monitor_stderr ::
  "iteration list \<Rightarrow> string \<Rightarrow> store \<Rightarrow> string outcome \<times> store \<times> effect list" where
  "monitor_stderr process jid st = monitor_loop process jid [] st []"

section \<open>The Job Launcher\<close>

text \<open>
  The configuration \<open>run_report\<close> reads: \<open>sys.exec_prefix\<close>, the results of
  \<open>get_output_dir()\<close> and \<open>get_template_dir()\<close>, the entries of
  \<open>current_app.config\<close>, and the class name and command-line arguments of the
  serializer.
\<close>

record app_config =
  sys_exec_prefix :: string
  get_output_dir :: string
  get_template_dir :: string
  PY_TEMPLATE_BASE_DIR :: string
  PY_TEMPLATE_SUBDIR :: string
  DEFAULT_MAILFROM :: string
  NOTEBOOKER_DISABLE_GIT :: bool
  serializer_class_name :: string
  serializer_args_to_cmdline_args :: "string list"

text \<open>
  What one call of \<open>run_report\<close> meets: the identifier \<open>str(uuid.uuid4())\<close> returns,
  the clock, how the store treats the stub write, whether \<open>subprocess.Popen\<close> raises,
  the exit code \<open>p.wait()\<close> leaves in \<open>p.returncode\<close> (\<open>None\<close>: the process never
  exits and \<open>wait\<close> never returns), and what \<open>p.poll()\<close> finds after the sleep of
  one second.
\<close>

record launch_env =
  uuid4 :: string
  now :: nat
  stub_write :: write_outcome
  popen_error :: "errno option"
  wait_returncode :: "int option"
  poll_returncode :: "int option"

text \<open>The list \<open>command\<close> of \<open>run_report\<close>, lines 195-231.\<close>

definition command ::
  "app_config \<Rightarrow> string \<Rightarrow> string \<Rightarrow> string \<Rightarrow> string \<Rightarrow> overrides_t \<Rightarrow> bool \<Rightarrow> bool \<Rightarrow> bool \<Rightarrow>
     string option \<Rightarrow> string option \<Rightarrow> int \<Rightarrow> cmd_arg list" where
  "command cfg jid rname rtitle mto ovr hide pdf prepare_only sched mfrom n_retries =
     [Arg (os_path_join (os_path_join (sys_exec_prefix cfg) ''bin'') ''notebooker-cli''),
      Arg ''--output-base-dir'',
      Arg (get_output_dir cfg),
      Arg ''--template-base-dir'',
      Arg (get_template_dir cfg),
      Arg ''--py-template-base-dir'',
      Arg (PY_TEMPLATE_BASE_DIR cfg),
      Arg ''--py-template-subdir'',
      Arg (PY_TEMPLATE_SUBDIR cfg),
      Arg ''--default-mailfrom'',
      Arg (DEFAULT_MAILFROM cfg)]
     @ (if NOTEBOOKER_DISABLE_GIT cfg then [Arg ''--notebooker-disable-git''] else [])
     @ [Arg ''--serializer-cls'', Arg (serializer_class_name cfg)]
     @ map Arg (serializer_args_to_cmdline_args cfg)
     @ [Arg ''execute-notebook'',
        Arg ''--job-id'',
        Arg jid,
        Arg ''--report-name'',
        Arg rname,
        Arg ''--report-title'',
        Arg rtitle,
        Arg ''--mailto'',
        Arg mto,
        Arg ''--overrides-as-json'',
        JsonDumps ovr,
        Arg (if pdf then ''--pdf-output'' else ''--no-pdf-output''),
        Arg (if hide then ''--hide-code'' else ''--show-code''),
        Arg ''--n-retries'', Arg (str_int n_retries)]
     @ (if prepare_only then [Arg ''--prepare-notebook-only''] else [])
     @ (case sched of None \<Rightarrow> [] | Some s \<Rightarrow> [Arg (''--scheduler-job-id='' @ s)])
     @ (case mfrom of None \<Rightarrow> [] | Some m \<Rightarrow> [Arg (''--mailfrom='' @ m)])"

text \<open>
  \<open>if p.returncode: raise RuntimeError(...)\<close>, lines 245-248: \<open>None\<close> and \<open>0\<close> are
  false.
\<close>

definition check_returncode :: "int option \<Rightarrow> string \<Rightarrow> string outcome" where
  "check_returncode returncode jid =
     (case returncode of
        None \<Rightarrow> Returns jid
      | Some rc \<Rightarrow>
          if rc \<noteq> 0
          then Raises (RuntimeError (''The report execution failed with exit code '' @ str_int rc))
          else Returns jid)"

text \<open>
  \<open>run_report\<close>, lines 151-248. The result is what the call does, the store it leaves
  and the effects it had. The parameters stand in the order of the source:
  \<open>report_name, report_title, mailto, overrides, hide_code, generate_pdf_output,
  prepare_only, scheduler_job_id, run_synchronously, mailfrom, n_retries\<close>.
\<close>

definition run_report ::
  "launch_env \<Rightarrow> app_config \<Rightarrow> store \<Rightarrow> string \<Rightarrow> string \<Rightarrow> string \<Rightarrow> overrides_t \<Rightarrow> bool \<Rightarrow> bool \<Rightarrow>
     bool \<Rightarrow> string option \<Rightarrow> bool \<Rightarrow> string option \<Rightarrow> int \<Rightarrow>
     string outcome \<times> store \<times> effect list" where
  "run_report env cfg st rname rtitle mto ovr hide pdf prepare_only sched run_synchronously
       mfrom n_retries =
     (let jid = uuid4 env;
          start = now env
      in case save_check_stub (stub_write env) st jid rname rtitle start SUBMITTED ovr mto pdf
                hide sched of
           Inl e \<Rightarrow> (Raises e, st, [SaveCheckStub jid SUBMITTED])
         | Inr st1 \<Rightarrow>
             (let cmd = command cfg jid rname rtitle mto ovr hide pdf prepare_only sched mfrom
                          n_retries;
                  spawned = [SaveCheckStub jid SUBMITTED, Popen cmd]
              in case popen_error env of
                   Some e \<Rightarrow> (Raises (OSError e), st1, spawned)
                 | None \<Rightarrow>
                     if run_synchronously then
                       (case wait_returncode env of
                          None \<Rightarrow> (Blocked, st1, spawned @ [ThreadStart jid, Wait])
                        | Some rc \<Rightarrow>
                            (check_returncode (Some rc) jid, st1,
                             spawned @ [ThreadStart jid, Wait]))
                     else
                       (check_returncode (poll_returncode env) jid, st1,
                        spawned @ [ThreadStart jid, Sleep 1, Poll])))"

section \<open>The Rerun Coordinator\<close>

text \<open>
  \<open>_rerun_report\<close>, lines 350-365. \<open>abort(404)\<close> raises the HTTP exception. The call of
  \<open>run_report\<close> passes \<open>generate_pdf_output\<close>, \<open>prepare_only\<close>,
  \<open>scheduler_job_id=None\<close> and \<open>run_synchronously\<close> by keyword; \<open>hide_code\<close>,
  \<open>mailfrom\<close> and \<open>n_retries\<close> take their defaults \<open>False\<close>, \<open>None\<close> and \<open>3\<close>.
\<close>

definition rerun_report ::
  "launch_env \<Rightarrow> app_config \<Rightarrow> store \<Rightarrow> string \<Rightarrow> bool \<Rightarrow> bool \<Rightarrow>
     string outcome \<times> store \<times> effect list" where
  "rerun_report env cfg st jid prepare_only run_synchronously =
     (case get_check_result st jid of
        None \<Rightarrow> (Raises (HTTPException 404), st, [])
      | Some result \<Rightarrow>
          run_report env cfg st (report_name result) (title (report_title result))
            (mailto result) (overrides result) False (generate_pdf_output result) prepare_only
            None run_synchronously None 3)"

section \<open>The Snapshot Exporter\<close>

text \<open>
  The file system the exporter writes to: the directories that exist, the regular files
  with their contents, and for each path the reason, if any, for which creating that
  directory fails although nothing exists there yet (no permission, no space).
  The root always exists. \<open>isdir\<close> is \<open>os.path.isdir\<close>, which is false for the empty
  path.
\<close>

datatype mkdir_failure = PermissionDenied | NoSpaceLeft

fun failure_errno :: "mkdir_failure \<Rightarrow> errno" where
  "failure_errno PermissionDenied = EACCES"
| "failure_errno NoSpaceLeft = ENOSPC"

record filesystem =
  dirs :: "string set"
  files :: "string \<rightharpoonup> string"
  mkdir_fault :: "string \<Rightarrow> mkdir_failure option"

definition isdir :: "filesystem \<Rightarrow> string \<Rightarrow> bool" where
  "isdir fs p = (p \<noteq> [] \<and> (p = ''/'' \<or> p \<in> dirs fs))"

text \<open>
  The directories \<open>os.makedirs(name)\<close> creates: \<open>name\<close> and those above it, found by
  \<open>os.path.dirname\<close>, up to the working directory or the root.
\<close>

fun dir_chain :: "nat \<Rightarrow> string \<Rightarrow> string list" where
  "dir_chain 0 p = []"
| "dir_chain (Suc n) p =
     (if p = [] \<or> p = ''/'' then [] else p # dir_chain n (os_path_dirname p))"

text \<open>
  \<open>os.makedirs(name)\<close> with \<open>exist_ok=False\<close>: \<open>FileNotFoundError\<close> for the empty
  path, \<open>FileExistsError\<close> (\<open>EEXIST\<close>) when \<open>name\<close> exists already, as a directory or
  as a file, \<open>NotADirectoryError\<close> when a regular file stands where a directory above
  \<open>name\<close> is needed; any other failure is the fault the file system holds for \<open>name\<close>.
  A failure leaves the file system as it was.
\<close>

definition os_makedirs :: "filesystem \<Rightarrow> string \<Rightarrow> py_error option \<times> filesystem" where
  "os_makedirs fs name =
     (if name = [] then (Some (OSError ENOENT), fs)
      else if isdir fs name \<or> files fs name \<noteq> None then (Some (OSError EEXIST), fs)
      else if list_ex (\<lambda>a. files fs a \<noteq> None) (dir_chain (length name) name)
      then (Some (OSError ENOTDIR), fs)
      else case mkdir_fault fs name of
             Some f \<Rightarrow> (Some (OSError (failure_errno f)), fs)
           | None \<Rightarrow> (None, fs\<lparr>dirs := dirs fs \<union> set (dir_chain (length name) name)\<rparr>))"

text \<open>
  \<open>with open(path, "w") as f: f.write(data)\<close>: the path must not be a directory and
  its parent must be one (the working directory when the path has no directory part);
  the file then holds exactly \<open>data\<close>.
\<close>

definition open_write ::
  "filesystem \<Rightarrow> string \<Rightarrow> string \<Rightarrow> py_error option \<times> filesystem" where
  "open_write fs path data =
     (if isdir fs path then (Some (OSError EISDIR), fs)
      else if files fs (os_path_dirname path) \<noteq> None then (Some (OSError ENOTDIR), fs)
      else if os_path_dirname path \<noteq> [] \<and> \<not> isdir fs (os_path_dirname path)
      then (Some (OSError ENOENT), fs)
      else (None, fs\<lparr>files := (files fs)(path \<mapsto> data)\<rparr>))"

text \<open>
  \<open>_create_dirs_if_not_present\<close>, lines 44-49: an \<open>OSError\<close> whose \<open>errno\<close> is
  \<open>EEXIST\<close> is swallowed, any other exception goes on.
\<close>

definition create_dirs_if_not_present ::
  "filesystem \<Rightarrow> string \<Rightarrow> py_error option \<times> filesystem" where
  "create_dirs_if_not_present fs filename =
     (case os_makedirs fs (os_path_dirname filename) of
        (Some (OSError e), fs') \<Rightarrow> if e \<noteq> EEXIST then (Some (OSError e), fs') else (None, fs')
      | (Some other, fs') \<Rightarrow> (Some other, fs')
      | (None, fs') \<Rightarrow> (None, fs'))"

text \<open>The local names of \<open>_write_notebook_html\<close>, lines 35-37.\<close>

definition override_str :: "job_record \<Rightarrow> string" where
  "override_str result = join_empty (map (\<lambda>(x, y). x @ ''_'' @ str y) (overrides result))"

definition save_file_name :: "job_record \<Rightarrow> string" where
  "save_file_name result = override_str result @ ''.html''"

definition save_file_path :: "job_record \<Rightarrow> string \<Rightarrow> string" where
  "save_file_path result directory = os_path_join directory (save_file_name result)"

text \<open>\<open>_write_notebook_html\<close>, lines 34-41.\<close>

definition write_notebook_html ::
  "filesystem \<Rightarrow> job_record \<Rightarrow> string \<Rightarrow> py_error option \<times> filesystem" where
  "write_notebook_html fs result directory =
     (case create_dirs_if_not_present fs (save_file_path result directory) of
        (Some e, fs') \<Rightarrow> (Some e, fs')
      | (None, fs') \<Rightarrow> open_write fs' (save_file_path result directory) (raw_html result))"

text \<open>
  \<open>_write_notebook_outputs\<close>, lines 25-31: the loop over the items of
  \<open>result.raw_html_resources["outputs"]\<close>.
\<close>

fun write_outputs_loop ::
  "filesystem \<Rightarrow> (string \<times> string) list \<Rightarrow> string \<Rightarrow> py_error option \<times> filesystem" where
  "write_outputs_loop fs [] directory = (None, fs)"
| "write_outputs_loop fs ((path, output) # rest) directory =
     (case create_dirs_if_not_present fs (os_path_join directory path) of
        (Some e, fs') \<Rightarrow> (Some e, fs')
      | (None, fs') \<Rightarrow>
          (case open_write fs' (os_path_join directory path) output of
             (Some e, fs'') \<Rightarrow> (Some e, fs'')
           | (None, fs'') \<Rightarrow> write_outputs_loop fs'' rest directory))"

definition write_notebook_outputs ::
  "filesystem \<Rightarrow> job_record \<Rightarrow> string \<Rightarrow> py_error option \<times> filesystem" where
  "write_notebook_outputs fs result directory =
     write_outputs_loop fs (raw_html_resources result) directory"

text \<open>\<open>_write_results\<close>, lines 19-22.\<close>

fun write_results ::
  "filesystem \<Rightarrow> job_record list \<Rightarrow> string \<Rightarrow> py_error option \<times> filesystem" where
  "write_results fs [] directory = (None, fs)"
| "write_results fs (result # results) directory =
     (case write_notebook_html fs result directory of
        (Some e, fs') \<Rightarrow> (Some e, fs')
      | (None, fs') \<Rightarrow>
          (case write_notebook_outputs fs' result directory of
             (Some e, fs'') \<Rightarrow> (Some e, fs'')
           | (None, fs'') \<Rightarrow> write_results fs'' results directory))"

text \<open>The local names of \<open>snap_latest_successful_notebooks\<close>, lines 13-14.\<close>

definition report_suffix :: "string \<Rightarrow> string" where
  "report_suffix rname = last (split rname CHR ''/'')"

definition report_directory :: "string \<Rightarrow> string \<Rightarrow> string" where
  "report_directory OUTPUT_DIR rname = os_path_join OUTPUT_DIR (report_suffix rname)"

text \<open>
  \<open>snap_latest_successful_notebooks\<close>, lines 11-16. The query
  \<open>get_latest_successful_job_results_all_params\<close> is not among the sources; the
  records it returns are the argument \<open>results\<close>.
\<close>

definition snap_latest_successful_notebooks ::
  "filesystem \<Rightarrow> string \<Rightarrow> string \<Rightarrow> job_record list \<Rightarrow> py_error option \<times> filesystem" where
  "snap_latest_successful_notebooks fs OUTPUT_DIR rname results =
     write_results fs results (report_directory OUTPUT_DIR rname)"

section \<open>Notions used in the statements\<close>

text \<open>
  A run of the monitor is described by one triple for each pass that reads a line: the
  line, what \<open>poll\<close> would return, and what the store does with the append.
  \<open>pass\<close> is the pass of such a triple.
\<close>

fun pass :: "string \<times> int option \<times> write_outcome \<Rightarrow> iteration" where
  "pass (line, p, w) = \<lparr>readline = Some line, poll = p, store_write = w\<rparr>"

text \<open>
  A pass after which the loop goes on: it does not meet the condition of the \<open>break\<close>
  and its append returns (stored or lost).
\<close>

fun goes_on :: "string \<times> int option \<times> write_outcome \<Rightarrow> bool" where
  "goes_on (line, p, w) = (\<not> (line = [] \<and> p \<noteq> None) \<and> w \<noteq> Unreachable)"

text \<open>The stored stdout after the appends of a run: the lines whose append was stored.\<close>

fun appended :: "(string \<times> int option \<times> write_outcome) list \<Rightarrow> string list \<Rightarrow> string list" where
  "appended [] s = s"
| "appended ((line, p, w) # xs) s = appended xs (if w = Stored then s @ [line] else s)"

text \<open>The effects of the passes of a run: each line is logged, then sent to the store.\<close>

definition pass_effects :: "string \<Rightarrow> (string \<times> int option \<times> write_outcome) list \<Rightarrow> effect list" where
  "pass_effects jid xs =
     concat (map (\<lambda>x. [LoggerInfo (fst x), UpdateStdout jid [fst x] False]) xs)"


text \<open>
  \<open>p.returncode\<close> when \<open>run_report\<close> tests it: set by \<open>p.wait()\<close> in a synchronous
  run, by \<open>p.poll()\<close> after the sleep otherwise.
\<close>

definition returncode :: "launch_env \<Rightarrow> bool \<Rightarrow> int option" where
  "returncode env run_synchronously =
     (if run_synchronously then wait_returncode env else poll_returncode env)"

text \<open>
  A launch that goes well: the stub write is stored, \<open>Popen\<close> does not raise, and at the
  test the subprocess has exited with code 0 or, in a run that does not wait, is still
  running.
\<close>

definition launch_ok :: "launch_env \<Rightarrow> bool \<Rightarrow> bool" where
  "launch_ok env run_synchronously =
     (stub_write env = Stored \<and> popen_error env = None \<and>
      (if run_synchronously then wait_returncode env = Some 0
       else poll_returncode env = None \<or> poll_returncode env = Some 0))"

text \<open>The effects of a \<open>run_report\<close> that got as far as the test of the exit code.\<close>

definition launch_effects ::
  "string \<Rightarrow> cmd_arg list \<Rightarrow> bool \<Rightarrow> effect list" where
  "launch_effects jid cmd run_synchronously =
     [SaveCheckStub jid SUBMITTED, Popen cmd, ThreadStart jid]
     @ (if run_synchronously then [Wait] else [Sleep 1, Poll])"

text \<open>
  Concrete values for the examples: a stored job of report \<open>sales/eu\<close> started by a
  scheduler, a store that holds it, a configuration, a file system with the directories
  \<open>/out\<close> and \<open>/tmp\<close>, a finished job with two overrides and one output resource,
  and surroundings in which \<open>uuid4\<close> draws \<open>job-2\<close> and the subprocess is still
  running after the sleep.
\<close>

definition example_result :: job_record where
  "example_result =
     check_stub ''job-1'' ''sales/eu'' ''Q1'' 0 SUBMITTED [(''q'', PStr ''1'')] ''a@b.c'' False True
       (Some ''nightly'')"

definition example_store :: store where
  "example_store = Map.empty(''job-1'' \<mapsto> example_result)"

definition example_config :: app_config where
  "example_config =
     \<lparr>sys_exec_prefix = ''/usr'', get_output_dir = ''/out'', get_template_dir = ''/tpl'',
      PY_TEMPLATE_BASE_DIR = ''/py'', PY_TEMPLATE_SUBDIR = ''reports'',
      DEFAULT_MAILFROM = ''nb@b.c'', NOTEBOOKER_DISABLE_GIT = True,
      serializer_class_name = ''PyMongoResultSerializer'',
      serializer_args_to_cmdline_args = [''--mongo-host'', ''localhost'']\<rparr>"

definition example_fs :: filesystem where
  "example_fs = \<lparr>dirs = {''/out'', ''/tmp''}, files = Map.empty, mkdir_fault = (\<lambda>p. None)\<rparr>"

definition exported_result :: job_record where
  "exported_result =
     \<lparr>job_id = ''job-3'', report_name = ''sales/eu'', report_title = ''Q1'',
      overrides = [(''region'', PStr ''EU''), (''year'', PStr ''2024'')], status = DONE,
      job_start_time = 3, mailto = ''a@b.c'', mailfrom = None, generate_pdf_output = False,
      hide_code = False, scheduler_job_id = None, stdout = [''done''],
      raw_html = ''<html>EU 2024</html>'', raw_html_resources = [(''img/a.png'', ''PNG'')]\<rparr>"

definition example_env :: launch_env where
  "example_env =
     \<lparr>uuid4 = ''job-2'', now = 7, stub_write = Stored, popen_error = None,
      wait_returncode = Some 0, poll_returncode = None\<rparr>"

section \<open>Properties of the string functions\<close>

lemma str_nat_digit: "n < 10 \<Longrightarrow> str_nat n = [digit_char n]"
proof -
  assume a: "n < 10"
  have "str_nat n =
        (if n < 10 then [digit_char n] else str_nat (n div 10) @ [digit_char (n mod 10)])"
    by (rule str_nat.simps)
  also from a have "\<dots> = [digit_char n]"
    by simp
  finally show ?thesis .
qed

lemma str_nat_more: "10 \<le> n \<Longrightarrow> str_nat n = str_nat (n div 10) @ [digit_char (n mod 10)]"
proof -
  assume a: "10 \<le> n"
  have "str_nat n =
        (if n < 10 then [digit_char n] else str_nat (n div 10) @ [digit_char (n mod 10)])"
    by (rule str_nat.simps)
  also from a have "\<dots> = str_nat (n div 10) @ [digit_char (n mod 10)]"
    by simp
  finally show ?thesis .
qed

lemma str_int_3: "str_int 3 = ''3''"
  by (simp add: str_int_def str_nat_digit digit_char_def)

lemma str_int_example: "str_int (- 15) = ''-15''"
  by (simp add: str_int_def str_nat_digit str_nat_more digit_char_def)

section \<open>Properties of the rerun title\<close>

lemma startswith_append [simp]: "startswith (p @ s) p"
  by (simp add: startswith_def)

lemma leading_markers_prefix: "leading_markers (prefix @ t) = Suc (leading_markers t)"
  by (subst leading_markers.simps) simp

lemma leading_markers_pos: "startswith t prefix \<Longrightarrow> 0 < leading_markers t"
  by (subst leading_markers.simps) simp

lemma leading_markers_zero: "\<not> startswith t prefix \<Longrightarrow> leading_markers t = 0"
  by (subst leading_markers.simps) simp

lemma title_startswith: "startswith (title t) prefix"
  by (simp add: title_def)

text \<open>
  Claim C4, as the code has it. The derived title always starts with the marker; deriving
  again changes nothing; the marker is put in front exactly when the stored title does
  not start with it; and the derived title starts with as many markers as the stored
  title did, or with one when it had none. So it starts with exactly one marker whenever
  the stored title starts with at most one.
\<close>

theorem rerun_title_marker:
  "startswith (title t) prefix \<and> title (title t) = title t
   \<and> title t = (if startswith t prefix then t else prefix @ t)
   \<and> leading_markers (title t) = max 1 (leading_markers t)"
proof (cases "startswith t prefix")
  case True
  then have "0 < leading_markers t"
    by (rule leading_markers_pos)
  with True show ?thesis
    by (simp add: title_def max_def)
next
  case False
  then have "leading_markers t = 0"
    by (rule leading_markers_zero)
  with False show ?thesis
    by (simp add: title_def leading_markers_prefix)
qed

text \<open>
  Claim C4 as stated says that for every stored title the derived title starts with
  exactly one marker. A job submitted under the title \<open>Rerun of Rerun of Q1\<close> is rerun
  under the same title, which starts with two.
\<close>

theorem rerun_title_two_markers:
  "title ''Rerun of Rerun of Q1'' = ''Rerun of Rerun of Q1'' \<and>
   leading_markers (title ''Rerun of Rerun of Q1'') = 2"
proof -
  have a: "title ''Rerun of Rerun of Q1'' = ''Rerun of Rerun of Q1''"
    by (simp add: title_def startswith_def prefix_def)
  have b: "leading_markers ''Rerun of Rerun of Q1'' = 2"
    by (simp add: leading_markers.simps startswith_def prefix_def)
  show ?thesis
    using a b by simp
qed

section \<open>Properties of the Output Monitor and the Job Launcher\<close>

lemma monitor_loop_undecodable:
  "readline it = None \<Longrightarrow>
   monitor_loop (it # its) jid buf st eff = (Raises UnicodeDecodeError, st, eff)"
  by simp

lemma monitor_loop_break:
  "readline it = Some [] \<Longrightarrow> poll it = Some rc \<Longrightarrow>
   monitor_loop (it # its) jid buf st eff =
     (case update_stdout (store_write it) st jid buf True of
        Inl e \<Rightarrow> (Raises e, st, eff @ [UpdateStdout jid buf True])
      | Inr st' \<Rightarrow> (Returns (join_empty buf), st', eff @ [UpdateStdout jid buf True]))"
  by simp

lemma monitor_loop_continue:
  assumes "readline it = Some line" and "\<not> (line = [] \<and> poll it \<noteq> None)"
  shows "monitor_loop (it # its) jid buf st eff =
         (case update_stdout (store_write it) st jid [line] False of
            Inl e \<Rightarrow> (Raises e, st, eff @ [LoggerInfo line, UpdateStdout jid [line] False])
          | Inr st' \<Rightarrow>
              monitor_loop its jid (buf @ [line]) st'
                (eff @ [LoggerInfo line, UpdateStdout jid [line] False]))"
proof (cases "line = []")
  case True
  with assms have "poll it = None" by simp
  with True assms(1) show ?thesis by (simp cong del: sum.case_cong_weak)
next
  case False
  with assms(1) show ?thesis by simp
qed

lemma record_self: "\<exists>s. r = r\<lparr>stdout := s\<rparr>"
  by (rule exI [of _ "stdout r"]) simp

declare monitor_loop.simps(2) [simp del]

lemma monitor_loop_step:
  assumes "\<not> (line = [] \<and> p \<noteq> None)"
  shows "monitor_loop (pass (line, p, w) # its) jid buf st eff =
         (case update_stdout w st jid [line] False of
            Inl e \<Rightarrow> (Raises e, st, eff @ [LoggerInfo line, UpdateStdout jid [line] False])
          | Inr st' \<Rightarrow>
              monitor_loop its jid (buf @ [line]) st'
                (eff @ [LoggerInfo line, UpdateStdout jid [line] False]))"
  using assms by (simp add: monitor_loop_continue [of _ line])

lemma update_stdout_append:
  "get_check_result st jid = Some r \<Longrightarrow>
   update_stdout Stored st jid ls False = Inr (st(jid \<mapsto> r\<lparr>stdout := stdout r @ ls\<rparr>))"
  by (simp add: update_stdout_def get_check_result_def)

lemma update_stdout_replace:
  "get_check_result st jid = Some r \<Longrightarrow>
   update_stdout Stored st jid ls True = Inr (st(jid \<mapsto> r\<lparr>stdout := ls\<rparr>))"
  by (simp add: update_stdout_def get_check_result_def)

lemma update_stdout_lost: "update_stdout Lost st jid ls b = Inr st"
  by (simp add: update_stdout_def)

lemma update_stdout_unreachable: "update_stdout Unreachable st jid ls b = Inl PersistenceError"
  by (simp add: update_stdout_def)

lemma monitor_loop_passes:
  assumes "get_check_result st jid = Some r" and "list_all goes_on xs"
  shows "monitor_loop (map pass xs @ its) jid buf st eff =
         monitor_loop its jid (buf @ map fst xs)
           (st(jid \<mapsto> r\<lparr>stdout := appended xs (stdout r)\<rparr>)) (eff @ pass_effects jid xs)"
  using assms
proof (induction xs arbitrary: st r buf eff)
  case Nil
  then have "st(jid \<mapsto> r) = st"
    by (simp add: map_upd_triv get_check_result_def)
  then show ?case
    by (simp add: pass_effects_def)
next
  case (Cons x xs)
  obtain line p w where x: "x = (line, p, w)"
    by (cases x) auto
  from Cons.prems have gx: "goes_on x" and rest: "list_all goes_on xs"
    by simp_all
  from gx x have go: "\<not> (line = [] \<and> p \<noteq> None)" and w: "w \<noteq> Unreachable"
    by simp_all
  define r' where "r' = (if w = Stored then r\<lparr>stdout := stdout r @ [line]\<rparr> else r)"
  define st' where "st' = (if w = Stored then st(jid \<mapsto> r') else st)"
  have upd: "update_stdout w st jid [line] False = Inr st'"
  proof (cases w)
    case Stored
    with Cons.prems(1) show ?thesis
      by (simp add: update_stdout_append st'_def r'_def)
  next
    case Lost
    then show ?thesis
      by (simp add: update_stdout_lost st'_def)
  next
    case Unreachable
    with w show ?thesis by simp
  qed
  have st': "get_check_result st' jid = Some r'"
    using Cons.prems(1) by (simp add: st'_def r'_def get_check_result_def)
  have same: "st'(jid \<mapsto> r'\<lparr>stdout := s\<rparr>) = st(jid \<mapsto> r\<lparr>stdout := s\<rparr>)" for s
    by (simp add: st'_def r'_def)
  have app: "appended (x # xs) (stdout r) = appended xs (stdout r')"
    by (simp add: x r'_def)
  have "monitor_loop (map pass (x # xs) @ its) jid buf st eff =
        monitor_loop (pass (line, p, w) # (map pass xs @ its)) jid buf st eff"
    by (simp add: x del: pass.simps monitor_loop.simps)
  also have "\<dots> = monitor_loop (map pass xs @ its) jid (buf @ [line]) st'
                     (eff @ [LoggerInfo line, UpdateStdout jid [line] False])"
    by (simp add: monitor_loop_step [OF go] upd del: pass.simps monitor_loop.simps)
  also have "\<dots> = monitor_loop its jid ((buf @ [line]) @ map fst xs)
                     (st'(jid \<mapsto> r'\<lparr>stdout := appended xs (stdout r')\<rparr>))
                     ((eff @ [LoggerInfo line, UpdateStdout jid [line] False]) @ pass_effects jid xs)"
    using st' rest by (rule Cons.IH)
  also have "\<dots> = monitor_loop its jid (buf @ map fst (x # xs))
                     (st(jid \<mapsto> r\<lparr>stdout := appended (x # xs) (stdout r)\<rparr>))
                     (eff @ pass_effects jid (x # xs))"
    by (simp only: same app) (simp add: x pass_effects_def)
  finally show ?case .
qed



lemma update_stdout_lookup:
  assumes "get_check_result st jid = Some r" and "update_stdout w st jid ls b = Inr st'"
  shows "\<exists>s. get_check_result st' jid = Some (r\<lparr>stdout := s\<rparr>)"
proof (cases w)
  case Stored
  with assms show ?thesis
    by (auto simp: update_stdout_def get_check_result_def)
next
  case Lost
  with assms have "get_check_result st' jid = Some (r\<lparr>stdout := stdout r\<rparr>)"
    by (simp add: update_stdout_def)
  then show ?thesis
    by (rule exI)
next
  case Unreachable
  with assms show ?thesis
    by (simp add: update_stdout_def)
qed

lemma update_stdout_other:
  assumes "k \<noteq> jid" and "update_stdout w st jid ls b = Inr st'"
  shows "get_check_result st' k = get_check_result st k"
  using assms
  by (cases w) (auto simp: update_stdout_def get_check_result_def split: option.splits)

lemma monitor_loop_lookup:
  assumes "get_check_result st jid = Some r"
  shows "\<exists>s. get_check_result (fst (snd (monitor_loop ps jid buf st eff))) jid =
           Some (r\<lparr>stdout := s\<rparr>)"
  using assms
proof (induction ps arbitrary: st r buf eff)
  case Nil
  then show ?case
    by (simp add: record_self)
next
  case (Cons it its)
  from Cons.prems have triv: "\<exists>s. get_check_result st jid = Some (r\<lparr>stdout := s\<rparr>)"
    by (simp add: record_self)
  show ?case
  proof (cases "readline it")
    case None
    with triv show ?thesis
      by (simp add: monitor_loop_undecodable)
  next
    case (Some line)
    show ?thesis
    proof (cases "line = [] \<and> poll it \<noteq> None")
      case True
      then obtain rc where brk: "readline it = Some []" "poll it = Some rc"
        using Some by auto
      show ?thesis
      proof (cases "update_stdout (store_write it) st jid buf True")
        case (Inl e)
        with triv show ?thesis
          by (simp add: monitor_loop_break [OF brk])
      next
        case (Inr st')
        from update_stdout_lookup [OF Cons.prems Inr] Inr show ?thesis
          by (simp add: monitor_loop_break [OF brk])
      qed
    next
      case False
      note cont = monitor_loop_continue [OF Some False]
      show ?thesis
      proof (cases "update_stdout (store_write it) st jid [line] False")
        case (Inl e)
        with triv show ?thesis
          by (simp add: cont)
      next
        case (Inr st')
        from update_stdout_lookup [OF Cons.prems Inr]
        obtain s where "get_check_result st' jid = Some (r\<lparr>stdout := s\<rparr>)"
          by blast
        from Cons.IH [OF this]
        have "\<exists>s'. get_check_result
                 (fst (snd (monitor_loop its jid (buf @ [line]) st'
                    (eff @ [LoggerInfo line, UpdateStdout jid [line] False])))) jid =
               Some (r\<lparr>stdout := s'\<rparr>)"
          by simp
        with Inr show ?thesis
          by (simp add: cont)
      qed
    qed
  qed
qed

lemma monitor_loop_other:
  assumes "k \<noteq> jid"
  shows "get_check_result (fst (snd (monitor_loop ps jid buf st eff))) k = get_check_result st k"
proof (induction ps arbitrary: st buf eff)
  case Nil
  show ?case by simp
next
  case (Cons it its)
  show ?case
  proof (cases "readline it")
    case None
    then show ?thesis
      by (simp add: monitor_loop_undecodable)
  next
    case (Some line)
    show ?thesis
    proof (cases "line = [] \<and> poll it \<noteq> None")
      case True
      then obtain rc where brk: "readline it = Some []" "poll it = Some rc"
        using Some by auto
      from update_stdout_other [OF assms] show ?thesis
        by (cases "update_stdout (store_write it) st jid buf True")
          (simp_all add: monitor_loop_break [OF brk])
    next
      case False
      from update_stdout_other [OF assms] Cons.IH show ?thesis
        by (cases "update_stdout (store_write it) st jid [line] False")
          (simp_all add: monitor_loop_continue [OF Some False])
    qed
  qed
qed




text \<open>
  Claim C6, as the code has it. As long as the lines decode and the writes return, the
  loop goes on: after the passes \<open>xs\<close> it stands at the next pass with every line in
  the buffer. A line that does not decode raises \<open>UnicodeDecodeError\<close> out of the
  loop, with nothing appended for it; a write that meets an unreachable store raises
  \<open>PersistenceError\<close> out of the loop. In both cases the monitor ends there: the later
  passes are not read, no final replace is made, and no effect logs the failure.
\<close>

theorem monitor_failure_ends_monitor:
  assumes "get_check_result st jid = Some r" and "list_all goes_on xs"
  shows "monitor_stderr (map pass xs @ its) jid st =
           monitor_loop its jid (map fst xs)
             (st(jid \<mapsto> r\<lparr>stdout := appended xs (stdout r)\<rparr>)) (pass_effects jid xs)
         \<and> monitor_stderr
              (map pass xs @ \<lparr>readline = None, poll = p, store_write = w\<rparr> # its) jid st =
            (Raises UnicodeDecodeError, st(jid \<mapsto> r\<lparr>stdout := appended xs (stdout r)\<rparr>),
             pass_effects jid xs)
         \<and> monitor_stderr
              (map pass xs @ \<lparr>readline = Some line, poll = p, store_write = Unreachable\<rparr> # its)
              jid st =
            (Raises PersistenceError, st(jid \<mapsto> r\<lparr>stdout := appended xs (stdout r)\<rparr>),
             pass_effects jid xs
             @ (if line = [] \<and> p \<noteq> None then [UpdateStdout jid (map fst xs) True]
                else [LoggerInfo line, UpdateStdout jid [line] False]))"
proof -
  have run: "monitor_stderr (map pass xs @ zs) jid st =
           monitor_loop zs jid (map fst xs)
             (st(jid \<mapsto> r\<lparr>stdout := appended xs (stdout r)\<rparr>)) (pass_effects jid xs)" for zs
    using monitor_loop_passes [OF assms, of zs "[]" "[]"] by (simp add: monitor_stderr_def)
  have bad: "monitor_loop (\<lparr>readline = None, poll = p, store_write = w\<rparr> # its) jid buf st' eff =
          (Raises UnicodeDecodeError, st', eff)" for buf st' eff
    by (simp add: monitor_loop_undecodable)
  have unreach: "monitor_loop (\<lparr>readline = Some line, poll = p, store_write = Unreachable\<rparr> # its)
          jid buf st' eff =
          (Raises PersistenceError, st',
           eff @ (if line = [] \<and> p \<noteq> None then [UpdateStdout jid buf True]
                  else [LoggerInfo line, UpdateStdout jid [line] False]))" for buf st' eff
    by (simp add: monitor_loop.simps(2) update_stdout_unreachable)
  show ?thesis
    unfolding run bad unreach by simp
qed

text \<open>Claim C6 as amended, at a run of one good line followed by a failure.\<close>

theorem monitor_failure_ends_monitor_witness:
  "get_check_result example_store ''job-1'' = Some example_result
   \<and> list_all goes_on [(''a'', None, Stored)]
   \<and> fst (monitor_stderr
         [pass (''a'', None, Stored), \<lparr>readline = None, poll = None, store_write = Stored\<rparr>,
          \<lparr>readline = Some [], poll = Some 0, store_write = Stored\<rparr>]
         ''job-1'' example_store) = Raises UnicodeDecodeError
   \<and> fst (monitor_stderr
         [pass (''a'', None, Stored), \<lparr>readline = Some ''b'', poll = None, store_write = Unreachable\<rparr>,
          \<lparr>readline = Some [], poll = Some 0, store_write = Stored\<rparr>]
         ''job-1'' example_store) = Raises PersistenceError"
proof -
  have h1: "get_check_result example_store ''job-1'' = Some example_result"
    by (simp add: get_check_result_def example_store_def)
  have h2: "list_all goes_on [(''a'', None, Stored)]"
    by simp
  from monitor_failure_ends_monitor [OF h1 h2,
      of "[\<lparr>readline = Some [], poll = Some 0, store_write = Stored\<rparr>]" None Stored "''b''"]
    h1 h2
  show ?thesis
    by (simp del: pass.simps)
qed

text \<open>
  Claim C6 as stated says that the loop never raises and never ends early. A line that is
  not valid UTF-8 after the line \<open>a\<close>, or a store that is unreachable for the append of
  \<open>a\<close>, ends the monitor with an exception before the line \<open>b\<close> is read and without
  the final replace.
\<close>

theorem monitor_raises_past_loop:
  "monitor_stderr
     [\<lparr>readline = Some ''a'', poll = None, store_write = Stored\<rparr>,
      \<lparr>readline = None, poll = None, store_write = Stored\<rparr>,
      \<lparr>readline = Some ''b'', poll = None, store_write = Stored\<rparr>,
      \<lparr>readline = Some [], poll = Some 0, store_write = Stored\<rparr>]
     ''job-1'' example_store =
   (Raises UnicodeDecodeError,
    example_store(''job-1'' \<mapsto> example_result\<lparr>stdout := [''a'']\<rparr>),
    [LoggerInfo ''a'', UpdateStdout ''job-1'' [''a''] False])
   \<and> monitor_stderr
     [\<lparr>readline = Some ''a'', poll = None, store_write = Unreachable\<rparr>,
      \<lparr>readline = Some ''b'', poll = None, store_write = Stored\<rparr>,
      \<lparr>readline = Some [], poll = Some 0, store_write = Stored\<rparr>]
     ''job-1'' example_store =
   (Raises PersistenceError, example_store,
    [LoggerInfo ''a'', UpdateStdout ''job-1'' [''a''] False])"
  by (simp add: monitor_stderr_def monitor_loop.simps(2) update_stdout_def example_store_def
        example_result_def check_stub_def)

lemma run_report_launched:
  assumes "stub_write env = Stored" and "popen_error env = None"
    and "\<not> (sync \<and> wait_returncode env = None)"
  shows "run_report env cfg st rname rtitle mto ovr hide pdf prep sched sync mfrom n =
         (check_returncode (returncode env sync) (uuid4 env),
          st(uuid4 env \<mapsto> check_stub (uuid4 env) rname rtitle (now env) SUBMITTED ovr mto pdf hide sched),
          launch_effects (uuid4 env)
            (command cfg (uuid4 env) rname rtitle mto ovr hide pdf prep sched mfrom n) sync)"
  using assms
  by (auto simp: run_report_def save_check_stub_def returncode_def launch_effects_def Let_def)

text \<open>
  Claim C1. When the stub write is stored, the subprocess starts and is not found to have
  failed, \<open>run_report\<close> returns the identifier it drew; its first effect is the stub
  write and the spawn comes second; a lookup of the returned identifier in the store it
  leaves finds the stub, with status \<open>SUBMITTED\<close> and the overrides of the call; and
  whatever the monitor thread has written by then (any passes \<open>ps\<close>), the lookup still
  finds that record, changed in \<open>stdout\<close> only. The writes of the subprocess itself
  are outside the modelled sources.
\<close>

theorem run_report_stub_then_spawn:
  assumes "launch_ok env sync"
  shows "let jid = uuid4 env;
             stub = check_stub jid rname rtitle (now env) SUBMITTED ovr mto pdf hide sched;
             res = run_report env cfg st rname rtitle mto ovr hide pdf prep sched sync mfrom n
         in fst res = Returns jid
            \<and> snd (snd res) =
                [SaveCheckStub jid SUBMITTED,
                 Popen (command cfg jid rname rtitle mto ovr hide pdf prep sched mfrom n),
                 ThreadStart jid] @ (if sync then [Wait] else [Sleep 1, Poll])
            \<and> get_check_result (fst (snd res)) jid = Some stub
            \<and> status stub = SUBMITTED \<and> overrides stub = ovr
            \<and> (\<exists>s. get_check_result (fst (snd (monitor_stderr ps jid (fst (snd res))))) jid =
                     Some (stub\<lparr>stdout := s\<rparr>))"
proof -
  from assms have a: "stub_write env = Stored" "popen_error env = None"
    "\<not> (sync \<and> wait_returncode env = None)"
    and rc: "check_returncode (returncode env sync) (uuid4 env) = Returns (uuid4 env)"
    by (auto simp: launch_ok_def returncode_def check_returncode_def split: if_splits)
  note run = run_report_launched [OF a]
  have look: "get_check_result
      (st(uuid4 env \<mapsto> check_stub (uuid4 env) rname rtitle (now env) SUBMITTED ovr mto pdf hide sched))
      (uuid4 env) =
      Some (check_stub (uuid4 env) rname rtitle (now env) SUBMITTED ovr mto pdf hide sched)"
    by (simp add: get_check_result_def)
  from monitor_loop_lookup [OF look]
  have mon: "\<exists>s. get_check_result (fst (snd (monitor_stderr ps (uuid4 env)
      (st(uuid4 env \<mapsto> check_stub (uuid4 env) rname rtitle (now env) SUBMITTED ovr mto pdf hide sched)))))
      (uuid4 env) =
      Some (check_stub (uuid4 env) rname rtitle (now env) SUBMITTED ovr mto pdf hide sched\<lparr>stdout := s\<rparr>)"
    by (simp add: monitor_stderr_def)
  show ?thesis
    unfolding Let_def run
    using rc look mon by (simp add: launch_effects_def check_stub_def)
qed

text \<open>
  Claim C1 at the submission of report \<open>sales/eu\<close> with title \<open>Q1\<close> and overrides
  \<open>{"q": "1"}\<close>, not synchronous, the process still running after the sleep.
\<close>

theorem run_report_stub_then_spawn_witness:
  "launch_ok example_env False
   \<and> fst (run_report example_env example_config example_store ''sales/eu'' ''Q1'' ''a@b.c''
          [(''q'', PStr ''1'')] False False False None False None 3) = Returns ''job-2''
   \<and> take 2 (snd (snd (run_report example_env example_config example_store ''sales/eu'' ''Q1''
          ''a@b.c'' [(''q'', PStr ''1'')] False False False None False None 3))) =
       [SaveCheckStub ''job-2'' SUBMITTED,
        Popen (command example_config ''job-2'' ''sales/eu'' ''Q1'' ''a@b.c''
                 [(''q'', PStr ''1'')] False False False None None 3)]
   \<and> map_option status (get_check_result (fst (snd (run_report example_env example_config
          example_store ''sales/eu'' ''Q1'' ''a@b.c'' [(''q'', PStr ''1'')] False False False None
          False None 3))) ''job-2'') = Some SUBMITTED
   \<and> map_option overrides (get_check_result (fst (snd (run_report example_env example_config
          example_store ''sales/eu'' ''Q1'' ''a@b.c'' [(''q'', PStr ''1'')] False False False None
          False None 3))) ''job-2'') = Some [(''q'', PStr ''1'')]"
proof -
  have h: "launch_ok example_env False"
    by (simp add: launch_ok_def example_env_def)
  from run_report_stub_then_spawn [OF h, where cfg = example_config and st = example_store
      and rname = "''sales/eu''" and rtitle = "''Q1''" and mto = "''a@b.c''"
      and ovr = "[(''q'', PStr ''1'')]" and hide = False and pdf = False and prep = False
      and sched = None and mfrom = None and n = 3 and ps = "[]"] h
  show ?thesis
    by (simp add: Let_def example_env_def check_stub_def)
qed

text \<open>
  Claim C3. Once the stub is stored and the subprocess started, and unless \<open>p.wait()\<close>
  never returns, the outcome of \<open>run_report\<close> is decided by \<open>p.returncode\<close> at the
  check (after the wait, or after the sleep and poll): a nonzero code raises
  \<open>RuntimeError\<close> with the code in its message, zero or no code yet returns the job
  identifier. In every case the store is the one the stub write left: the record is
  there with status \<open>SUBMITTED\<close>.
\<close>

theorem run_report_exit_code:
  assumes "stub_write env = Stored" and "popen_error env = None"
    and "\<not> (sync \<and> wait_returncode env = None)"
  shows "let jid = uuid4 env;
             stub = check_stub jid rname rtitle (now env) SUBMITTED ovr mto pdf hide sched;
             res = run_report env cfg st rname rtitle mto ovr hide pdf prep sched sync mfrom n
         in fst res =
              (case returncode env sync of
                 None \<Rightarrow> Returns jid
               | Some rc \<Rightarrow>
                   if rc = 0 then Returns jid
                   else Raises (RuntimeError
                          (''The report execution failed with exit code '' @ str_int rc)))
            \<and> fst (snd res) = st(jid \<mapsto> stub)
            \<and> get_check_result (fst (snd res)) jid = Some stub
            \<and> status stub = SUBMITTED"
  unfolding Let_def run_report_launched [OF assms]
  by (simp add: check_returncode_def get_check_result_def check_stub_def split: option.splits)

text \<open>Claim C3 at a subprocess that has exited with code 2 when polled.\<close>

theorem run_report_exit_code_witness:
  "stub_write (example_env\<lparr>poll_returncode := Some 2\<rparr>) = Stored
   \<and> popen_error (example_env\<lparr>poll_returncode := Some 2\<rparr>) = None
   \<and> fst (run_report (example_env\<lparr>poll_returncode := Some 2\<rparr>) example_config example_store
          ''sales/eu'' ''Q1'' ''a@b.c'' [(''q'', PStr ''1'')] False False False None False None 3) =
       Raises (RuntimeError ''The report execution failed with exit code 2'')
   \<and> map_option status (get_check_result (fst (snd (run_report
          (example_env\<lparr>poll_returncode := Some 2\<rparr>) example_config example_store
          ''sales/eu'' ''Q1'' ''a@b.c'' [(''q'', PStr ''1'')] False False False None False None 3)))
          ''job-2'') = Some SUBMITTED"
proof -
  have h1: "stub_write (example_env\<lparr>poll_returncode := Some 2\<rparr>) = Stored"
    and h2: "popen_error (example_env\<lparr>poll_returncode := Some 2\<rparr>) = None"
    and h3: "\<not> (False \<and> wait_returncode (example_env\<lparr>poll_returncode := Some 2\<rparr>) = None)"
    by (simp_all add: example_env_def)
  have two: "str_int 2 = ''2''"
    by (simp add: str_int_def str_nat_digit digit_char_def)
  from run_report_exit_code [OF h1 h2 h3, where cfg = example_config and st = example_store
      and rname = "''sales/eu''" and rtitle = "''Q1''" and mto = "''a@b.c''"
      and ovr = "[(''q'', PStr ''1'')]" and hide = False and pdf = False and prep = False
      and sched = None and mfrom = None and n = 3]
    h1 h2
  show ?thesis
    by (simp add: Let_def returncode_def example_env_def two get_check_result_def check_stub_def)
qed

lemma command_defaults_tail:
  "\<exists>pre. command cfg jid rname rtitle mto ovr False pdf prep None None 3 =
     pre @ [Arg ''--show-code'', Arg ''--n-retries'', Arg ''3'']
         @ (if prep then [Arg ''--prepare-notebook-only''] else [])"
proof -
  let ?pre = "[Arg (os_path_join (os_path_join (sys_exec_prefix cfg) ''bin'') ''notebooker-cli''),
      Arg ''--output-base-dir'',
      Arg (get_output_dir cfg),
      Arg ''--template-base-dir'',
      Arg (get_template_dir cfg),
      Arg ''--py-template-base-dir'',
      Arg (PY_TEMPLATE_BASE_DIR cfg),
      Arg ''--py-template-subdir'',
      Arg (PY_TEMPLATE_SUBDIR cfg),
      Arg ''--default-mailfrom'',
      Arg (DEFAULT_MAILFROM cfg)]
     @ (if NOTEBOOKER_DISABLE_GIT cfg then [Arg ''--notebooker-disable-git''] else [])
     @ [Arg ''--serializer-cls'', Arg (serializer_class_name cfg)]
     @ map Arg (serializer_args_to_cmdline_args cfg)
     @ [Arg ''execute-notebook'',
        Arg ''--job-id'',
        Arg jid,
        Arg ''--report-name'',
        Arg rname,
        Arg ''--report-title'',
        Arg rtitle,
        Arg ''--mailto'',
        Arg mto,
        Arg ''--overrides-as-json'',
        JsonDumps ovr,
        Arg (if pdf then ''--pdf-output'' else ''--no-pdf-output'')]"
  have "command cfg jid rname rtitle mto ovr False pdf prep None None 3 =
     ?pre @ [Arg ''--show-code'', Arg ''--n-retries'', Arg ''3'']
         @ (if prep then [Arg ''--prepare-notebook-only''] else [])"
    by (simp only: command_def str_int_3 append_assoc append.simps append_Nil2 option.case
          if_False)
  then show ?thesis
    by (rule exI [where x = "?pre"])
qed

lemma run_report_effects:
  assumes "stub_write env = Stored"
  shows "\<exists>rest. snd (snd (run_report env cfg st rname rtitle mto ovr hide pdf prep sched sync mfrom n)) =
           SaveCheckStub (uuid4 env) SUBMITTED
           # Popen (command cfg (uuid4 env) rname rtitle mto ovr hide pdf prep sched mfrom n) # rest"
  using assms
  by (simp add: run_report_def save_check_stub_def Let_def split: option.splits)

lemma run_report_store:
  assumes "stub_write env = Stored"
  shows "fst (snd (run_report env cfg st rname rtitle mto ovr hide pdf prep sched sync mfrom n)) =
           st(uuid4 env \<mapsto> check_stub (uuid4 env) rname rtitle (now env) SUBMITTED ovr mto pdf hide sched)"
  using assms
  by (simp add: run_report_def save_check_stub_def Let_def split: option.splits)



text \<open>
  Claim C9. Whatever the prior record holds, the record of the rerun has
  \<open>hide_code = False\<close> and no \<open>mailfrom\<close>, and the command line of the subprocess
  ends with \<open>--show-code --n-retries 3\<close> and at most \<open>--prepare-notebook-only\<close>:
  no \<open>--mailfrom=\<close> and no \<open>--scheduler-job-id=\<close> argument follows. A prior record
  \<open>r'\<close> that agrees with \<open>r\<close> on report name, title, mailto, overrides and
  \<open>generate_pdf_output\<close> leads to the same outcome, the same effects and the same new
  record.
\<close>

theorem rerun_report_launcher_defaults:
  assumes "get_check_result st jid = Some r" and "stub_write env = Stored"
    and "report_name r' = report_name r" and "report_title r' = report_title r"
    and "mailto r' = mailto r" and "overrides r' = overrides r"
    and "generate_pdf_output r' = generate_pdf_output r"
  shows "let new = uuid4 env;
             res = rerun_report env cfg st jid prep sync;
             res' = rerun_report env cfg (st(jid \<mapsto> r')) jid prep sync
         in (\<exists>rec. get_check_result (fst (snd res)) new = Some rec
                \<and> hide_code rec = False \<and> mailfrom rec = None)
            \<and> (\<exists>pre rest. snd (snd res) =
                  SaveCheckStub new SUBMITTED
                  # Popen (pre @ [Arg ''--show-code'', Arg ''--n-retries'', Arg ''3'']
                           @ (if prep then [Arg ''--prepare-notebook-only''] else []))
                  # rest)
            \<and> fst res' = fst res \<and> snd (snd res') = snd (snd res)
            \<and> get_check_result (fst (snd res')) new = get_check_result (fst (snd res)) new"
proof -
  have rr: "rerun_report env cfg st jid prep sync =
        run_report env cfg st (report_name r) (title (report_title r)) (mailto r) (overrides r)
          False (generate_pdf_output r) prep None sync None 3"
    using assms(1) by (simp add: rerun_report_def)
  have rr': "rerun_report env cfg (st(jid \<mapsto> r')) jid prep sync =
        run_report env cfg (st(jid \<mapsto> r')) (report_name r) (title (report_title r)) (mailto r)
          (overrides r) False (generate_pdf_output r) prep None sync None 3"
    using assms(3-7) by (simp add: rerun_report_def get_check_result_def)
  have rec: "\<exists>rec. get_check_result (fst (snd (rerun_report env cfg st jid prep sync))) (uuid4 env) =
               Some rec \<and> hide_code rec = False \<and> mailfrom rec = None"
    unfolding rr run_report_store [OF assms(2)]
    by (simp add: get_check_result_def check_stub_def)
  from command_defaults_tail obtain pre where
    pre: "command cfg (uuid4 env) (report_name r) (title (report_title r)) (mailto r) (overrides r)
            False (generate_pdf_output r) prep None None 3 =
          pre @ [Arg ''--show-code'', Arg ''--n-retries'', Arg ''3'']
              @ (if prep then [Arg ''--prepare-notebook-only''] else [])"
    by blast
  from run_report_effects [OF assms(2)] obtain rest where
    "snd (snd (rerun_report env cfg st jid prep sync)) =
       SaveCheckStub (uuid4 env) SUBMITTED
       # Popen (command cfg (uuid4 env) (report_name r) (title (report_title r)) (mailto r)
                  (overrides r) False (generate_pdf_output r) prep None None 3) # rest"
    unfolding rr by blast
  with pre have eff: "\<exists>pre rest. snd (snd (rerun_report env cfg st jid prep sync)) =
       SaveCheckStub (uuid4 env) SUBMITTED
       # Popen (pre @ [Arg ''--show-code'', Arg ''--n-retries'', Arg ''3'']
                @ (if prep then [Arg ''--prepare-notebook-only''] else []))
       # rest"
    by auto
  have same: "fst (rerun_report env cfg (st(jid \<mapsto> r')) jid prep sync) =
                fst (rerun_report env cfg st jid prep sync)
      \<and> snd (snd (rerun_report env cfg (st(jid \<mapsto> r')) jid prep sync)) =
                snd (snd (rerun_report env cfg st jid prep sync))
      \<and> get_check_result (fst (snd (rerun_report env cfg (st(jid \<mapsto> r')) jid prep sync))) (uuid4 env) =
          get_check_result (fst (snd (rerun_report env cfg st jid prep sync))) (uuid4 env)"
    unfolding rr rr' using assms(2)
    by (simp add: run_report_def save_check_stub_def Let_def get_check_result_def
          split: option.splits)
  show ?thesis
    unfolding Let_def using rec eff same by blast
qed

text \<open>
  Claim C9 at the rerun of \<open>job-1\<close>, stored with \<open>hide_code = True\<close>: the new record
  has \<open>hide_code = False\<close>, and a prior record with other \<open>hide_code\<close> and
  \<open>mailfrom\<close> gives the same launch.
\<close>

theorem rerun_report_launcher_defaults_witness:
  "get_check_result example_store ''job-1'' = Some example_result
   \<and> stub_write example_env = Stored
   \<and> hide_code example_result = True
   \<and> map_option hide_code (get_check_result (fst (snd (rerun_report example_env example_config
          example_store ''job-1'' False False))) ''job-2'') = Some False
   \<and> map_option mailfrom (get_check_result (fst (snd (rerun_report example_env example_config
          example_store ''job-1'' False False))) ''job-2'') = Some None
   \<and> fst (rerun_report example_env example_config
          (example_store(''job-1'' \<mapsto> example_result\<lparr>mailfrom := Some ''x@y.z'', hide_code := False\<rparr>))
          ''job-1'' False False) =
       fst (rerun_report example_env example_config example_store ''job-1'' False False)
   \<and> snd (snd (rerun_report example_env example_config
          (example_store(''job-1'' \<mapsto> example_result\<lparr>mailfrom := Some ''x@y.z'', hide_code := False\<rparr>))
          ''job-1'' False False)) =
       snd (snd (rerun_report example_env example_config example_store ''job-1'' False False))"
proof -
  have h1: "get_check_result example_store ''job-1'' = Some example_result"
    by (simp add: get_check_result_def example_store_def)
  have h2: "stub_write example_env = Stored"
    by (simp add: example_env_def)
  have hide: "hide_code example_result = True"
    by (simp add: example_result_def check_stub_def)
  have u: "uuid4 example_env = ''job-2''"
    by (simp add: example_env_def)
  from rerun_report_launcher_defaults [OF h1 h2,
      where r' = "example_result\<lparr>mailfrom := Some ''x@y.z'', hide_code := False\<rparr>"
      and cfg = example_config and prep = False and sync = False]
  have "(\<exists>rec. get_check_result (fst (snd (rerun_report example_env example_config
          example_store ''job-1'' False False))) ''job-2'' = Some rec
          \<and> hide_code rec = False \<and> mailfrom rec = None)
      \<and> fst (rerun_report example_env example_config
          (example_store(''job-1'' \<mapsto> example_result\<lparr>mailfrom := Some ''x@y.z'', hide_code := False\<rparr>))
          ''job-1'' False False) =
         fst (rerun_report example_env example_config example_store ''job-1'' False False)
      \<and> snd (snd (rerun_report example_env example_config
          (example_store(''job-1'' \<mapsto> example_result\<lparr>mailfrom := Some ''x@y.z'', hide_code := False\<rparr>))
          ''job-1'' False False)) =
         snd (snd (rerun_report example_env example_config example_store ''job-1'' False False))"
    by (simp add: Let_def u)
  with h1 h2 hide show ?thesis
    by auto
qed

section \<open>Properties of the Snapshot Exporter\<close>












lemma label_eval: "override_str exported_result = ''region_EUyear_2024''"
  by (simp add: override_str_def join_empty_def exported_result_def)


lemma write_eval:
  "write_notebook_html example_fs exported_result ''/out/eu'' =
     (None, example_fs\<lparr>dirs := {''/out'', ''/tmp'', ''/out/eu''},
              files := [''/out/eu/region_EUyear_2024.html'' \<mapsto> ''<html>EU 2024</html>'']\<rparr>)"
  by (simp add: write_notebook_html_def create_dirs_if_not_present_def os_makedirs_def
        open_write_def isdir_def example_fs_def
        save_file_path_def save_file_name_def label_eval os_path_join_def startswith_def endswith_def
        os_path_dirname_def rstrip_sep_def insert_commute)
    (simp add: exported_result_def)



lemma dir_chain_head:
  assumes "name \<noteq> []" and "name \<noteq> ''/''"
  shows "name \<in> set (dir_chain (length name) name)"
proof (cases "length name")
  case 0
  with assms(1) show ?thesis by simp
next
  case (Suc n)
  with assms show ?thesis by simp
qed

lemma create_dirs_ok:
  assumes "create_dirs_if_not_present fs filename = (None, fs1)"
  shows "os_path_dirname filename \<noteq> [] \<and> files fs1 = files fs
         \<and> (isdir fs1 (os_path_dirname filename) \<or> files fs1 (os_path_dirname filename) \<noteq> None)"
proof -
  let ?d = "os_path_dirname filename"
  show ?thesis
  proof (cases "?d = []")
    case True
    with assms show ?thesis
      by (simp add: create_dirs_if_not_present_def os_makedirs_def)
  next
    case False
    show ?thesis
    proof (cases "isdir fs ?d \<or> files fs ?d \<noteq> None")
      case True
      with assms False have "fs1 = fs"
        by (auto simp: create_dirs_if_not_present_def os_makedirs_def)
      with True False show ?thesis by simp
    next
      case nex: False
      with False have "?d \<noteq> ''/''"
        by (auto simp: isdir_def)
      with False have mem: "?d \<in> set (dir_chain (length ?d) ?d)"
        by (rule dir_chain_head)
      have "failure_errno f \<noteq> EEXIST" for f
        by (cases f) simp_all
      with assms False nex have "fs1 = fs\<lparr>dirs := dirs fs \<union> set (dir_chain (length ?d) ?d)\<rparr>"
        by (auto simp: create_dirs_if_not_present_def os_makedirs_def
              split: if_splits option.splits)
      with mem False show ?thesis
        by (simp add: isdir_def)
    qed
  qed
qed

lemma write_notebook_html_again:
  assumes "write_notebook_html fs result directory = (None, fs2)"
  shows "write_notebook_html fs2 result directory = (None, fs2)"
proof -
  let ?p = "save_file_path result directory"
  let ?d = "os_path_dirname ?p"
  obtain err fs1 where c: "create_dirs_if_not_present fs ?p = (err, fs1)"
    by (cases "create_dirs_if_not_present fs ?p") auto
  with assms have err: "err = None"
    and w: "open_write fs1 ?p (raw_html result) = (None, fs2)"
    by (cases err; simp add: write_notebook_html_def)+
  from c err have c': "create_dirs_if_not_present fs ?p = (None, fs1)"
    by simp
  note ok = create_dirs_ok [OF c']
  from w have nd: "\<not> isdir fs1 ?p" and nf: "files fs1 ?d = None"
    and fs2: "fs2 = fs1\<lparr>files := (files fs1)(?p \<mapsto> raw_html result)\<rparr>"
    by (auto simp: open_write_def split: if_splits)
  from ok nf have dd: "isdir fs1 ?d" and dne: "?d \<noteq> []"
    by auto
  from dd nd have neq: "?d \<noteq> ?p"
    by auto
  from dd have dd2: "isdir fs2 ?d"
    by (simp add: fs2 isdir_def)
  then have mk: "create_dirs_if_not_present fs2 ?p = (None, fs2)"
    using dne by (simp add: create_dirs_if_not_present_def os_makedirs_def)
  from nd have nd2: "\<not> isdir fs2 ?p"
    by (simp add: fs2 isdir_def)
  from nf neq have nf2: "files fs2 ?d = None"
    by (simp add: fs2)
  have "open_write fs2 ?p (raw_html result) = (None, fs2)"
    using nd2 nf2 dd2 by (simp add: open_write_def) (simp add: fs2)
  with mk show ?thesis
    by (simp add: write_notebook_html_def)
qed

text \<open>
  Claim C8. When the directory of the target path exists already,
  \<open>_create_dirs_if_not_present\<close> returns without an error and leaves the file system as
  it is. When \<open>os.makedirs\<close> fails with an \<open>errno\<close> other than \<open>EEXIST\<close>, the same
  error leaves \<open>_create_dirs_if_not_present\<close>, and \<open>_write_notebook_html\<close> ends with
  it before any file is written. A document that has been written once is written a
  second time without error, to the same effect.
\<close>

theorem create_dirs_idempotent:
  "(isdir fs (os_path_dirname filename) \<longrightarrow> create_dirs_if_not_present fs filename = (None, fs))
   \<and> (os_makedirs fs (os_path_dirname filename) = (Some (OSError e), fs') \<and> e \<noteq> EEXIST \<longrightarrow>
        create_dirs_if_not_present fs filename = (Some (OSError e), fs'))
   \<and> (os_makedirs fs (os_path_dirname (save_file_path result directory)) = (Some (OSError e), fs')
        \<and> e \<noteq> EEXIST \<longrightarrow>
        write_notebook_html fs result directory = (Some (OSError e), fs') \<and> files fs' = files fs)
   \<and> (write_notebook_html fs result directory = (None, fs2) \<longrightarrow>
        write_notebook_html fs2 result directory = (None, fs2))"
proof -
  have a: "isdir fs (os_path_dirname filename) \<longrightarrow>
           create_dirs_if_not_present fs filename = (None, fs)"
    by (simp add: create_dirs_if_not_present_def os_makedirs_def isdir_def)
  have b: "os_makedirs fs (os_path_dirname f) = (Some (OSError e), fs') \<and> e \<noteq> EEXIST \<longrightarrow>
           create_dirs_if_not_present fs f = (Some (OSError e), fs')" for f
    by (simp add: create_dirs_if_not_present_def)
  have unchanged: "os_makedirs fs name = (Some err, fs') \<Longrightarrow> fs' = fs" for name err
    by (auto simp: os_makedirs_def split: if_splits option.splits)
  have c: "os_makedirs fs (os_path_dirname (save_file_path result directory)) =
             (Some (OSError e), fs') \<and> e \<noteq> EEXIST \<longrightarrow>
           write_notebook_html fs result directory = (Some (OSError e), fs') \<and> files fs' = files fs"
    using b [of "save_file_path result directory"] unchanged
    by (auto simp: write_notebook_html_def)
  have d: "write_notebook_html fs result directory = (None, fs2) \<longrightarrow>
           write_notebook_html fs2 result directory = (None, fs2)"
    by (rule impI) (rule write_notebook_html_again)
  from a b [of filename] c d show ?thesis
    by blast
qed

text \<open>
  Claim C8 at \<open>/out/x.html\<close> with \<open>/out\<close> present, at a file system that denies every
  new directory, and at two exports of the same record in succession.
\<close>

theorem create_dirs_idempotent_witness:
  "isdir example_fs (os_path_dirname ''/out/x.html'')
   \<and> create_dirs_if_not_present example_fs ''/out/x.html'' = (None, example_fs)
   \<and> os_makedirs (example_fs\<lparr>mkdir_fault := \<lambda>p. Some PermissionDenied\<rparr>)
         (os_path_dirname (save_file_path exported_result ''/out/eu'')) =
       (Some (OSError EACCES), example_fs\<lparr>mkdir_fault := \<lambda>p. Some PermissionDenied\<rparr>)
   \<and> EACCES \<noteq> EEXIST
   \<and> create_dirs_if_not_present (example_fs\<lparr>mkdir_fault := \<lambda>p. Some PermissionDenied\<rparr>)
         (save_file_path exported_result ''/out/eu'') =
       (Some (OSError EACCES), example_fs\<lparr>mkdir_fault := \<lambda>p. Some PermissionDenied\<rparr>)
   \<and> write_notebook_html (example_fs\<lparr>mkdir_fault := \<lambda>p. Some PermissionDenied\<rparr>)
         exported_result ''/out/eu'' =
       (Some (OSError EACCES), example_fs\<lparr>mkdir_fault := \<lambda>p. Some PermissionDenied\<rparr>)
   \<and> write_notebook_html example_fs exported_result ''/out/eu'' =
       (None, example_fs\<lparr>dirs := {''/out'', ''/tmp'', ''/out/eu''},
                files := [''/out/eu/region_EUyear_2024.html'' \<mapsto> ''<html>EU 2024</html>'']\<rparr>)
   \<and> write_notebook_html
         (example_fs\<lparr>dirs := {''/out'', ''/tmp'', ''/out/eu''},
            files := [''/out/eu/region_EUyear_2024.html'' \<mapsto> ''<html>EU 2024</html>'']\<rparr>)
         exported_result ''/out/eu'' =
       (None, example_fs\<lparr>dirs := {''/out'', ''/tmp'', ''/out/eu''},
                files := [''/out/eu/region_EUyear_2024.html'' \<mapsto> ''<html>EU 2024</html>'']\<rparr>)"
proof -
  let ?denied = "example_fs\<lparr>mkdir_fault := \<lambda>p. Some PermissionDenied\<rparr>"
  let ?written = "example_fs\<lparr>dirs := {''/out'', ''/tmp'', ''/out/eu''},
                files := [''/out/eu/region_EUyear_2024.html'' \<mapsto> ''<html>EU 2024</html>'']\<rparr>"
  have a: "isdir example_fs (os_path_dirname ''/out/x.html'')"
    by (simp add: isdir_def example_fs_def os_path_dirname_def rstrip_sep_def)
  have p: "save_file_path exported_result ''/out/eu'' = ''/out/eu/region_EUyear_2024.html''"
    by (simp add: save_file_path_def save_file_name_def label_eval os_path_join_def startswith_def
          endswith_def)
  have d: "os_path_dirname ''/out/eu/region_EUyear_2024.html'' = ''/out/eu''"
    by (simp add: os_path_dirname_def rstrip_sep_def)
  have b: "os_makedirs ?denied (os_path_dirname (save_file_path exported_result ''/out/eu'')) =
       (Some (OSError EACCES), ?denied)"
    unfolding p d by (simp add: os_makedirs_def isdir_def example_fs_def)
  have c: "EACCES \<noteq> EEXIST"
    by simp
  note w = write_eval
  from create_dirs_idempotent [where fs = example_fs and filename = "''/out/x.html''"
      and result = exported_result and directory = "''/out/eu''" and ?fs2.0 = ?written]
    create_dirs_idempotent [where fs = ?denied
      and filename = "save_file_path exported_result ''/out/eu''"
      and result = exported_result and directory = "''/out/eu''" and e = EACCES
      and fs' = ?denied]
    a b c w
  show ?thesis
    by simp
qed

end
